theory Spec2Isabelle
  imports Complex_Main
begin

section \<open>Geometry reduction (map client, \<open>extractPointsFromPolygons\<close>)\<close>

text \<open>
  A TypeScript \<open>number\<close> is modelled as a real; the reducer only copies numbers, it does
  no arithmetic on them. A GeoJSON position is \<open>number[]\<close>, by convention
  \<open>[longitude, latitude]\<close>, possibly followed by an altitude.
\<close>

type_synonym position = "real list"

text \<open>The geometry objects of GeoJSON, as the union type \<open>GeoJSON.Geometry\<close> declares them.\<close>

datatype geometry =
    Point position
  | MultiPoint "position list"
  | LineString "position list"
  | MultiLineString "position list list"
  | Polygon "position list list"
  | MultiPolygon "position list list list"
  | GeometryCollection "geometry list"

text \<open>
  A feature: \<open>geometry\<close> may be \<open>null\<close>, and so may the property bag, a dictionary
  whose entries of interest (\<open>severity\<close>, \<open>area\<close>) the code casts to numbers.
\<close>

record feature =
  geometry :: "geometry option"
  feature_properties :: "(string \<rightharpoonup> real) option"

text \<open>
  What the store's \<open>burnSeverityPolygons\<close> may hold when it is not \<open>null\<close>: a feature
  collection, a single feature, or an object of any other \<open>type\<close> (a bare geometry).
\<close>

datatype geojson =
    FeatureCollection "feature list"
  | Feature feature
  | Geometry geometry

text \<open>The interface \<open>BurnSeverityPoint\<close>; an \<open>undefined\<close> component is \<open>None\<close>.\<close>

record pointProperties =
  severity :: "real option"
  area :: "real option"

record burnSeverityPoint =
  latlng :: "real option \<times> real option"
  properties :: pointProperties

text \<open>\<open>coord[k]\<close>: reading past the end of a JavaScript array gives \<open>undefined\<close>.\<close>

definition coord_at :: "position \<Rightarrow> nat \<Rightarrow> real option" where
  "coord_at coord k = (if k < length coord then Some (coord ! k) else None)"

text \<open>\<open>feature.properties?.name\<close>: \<open>undefined\<close> when the bag is \<open>null\<close> or lacks the key.\<close>

definition property :: "feature \<Rightarrow> string \<Rightarrow> real option" where
  "property f name = (case feature_properties f of None \<Rightarrow> None | Some bag \<Rightarrow> bag name)"

text \<open>
  The object literal pushed onto \<open>points\<close>; the source writes it out three times, once per
  supported geometry type, each time as
  \<open>{ latlng: [coord[1], coord[0]], properties: { severity: ..., area: ... } }\<close>.
\<close>

definition mkPoint :: "feature \<Rightarrow> position \<Rightarrow> burnSeverityPoint" where
  "mkPoint f coord =
     \<lparr> latlng = (coord_at coord 1, coord_at coord 0),
       properties = \<lparr> severity = property f ''severity'', area = property f ''area'' \<rparr> \<rparr>"

text \<open>
  The sampling loop
  \<open>for (let i = 0; i < ring.length; i += Math.max(1, Math.floor(ring.length / 10)))\<close>,
  entered at index \<open>i\<close> with the points pushed so far.
\<close>

function sampleLoop ::
  "feature \<Rightarrow> position list \<Rightarrow> nat \<Rightarrow> burnSeverityPoint list \<Rightarrow> burnSeverityPoint list" where
  "sampleLoop f ring i points =
     (if i < length ring
      then sampleLoop f ring (i + max 1 (length ring div 10)) (points @ [mkPoint f (ring ! i)])
      else points)"
  by pat_completeness auto
termination
  by (relation "measure (\<lambda>(f, ring, i, points). length ring - i)") auto

declare sampleLoop.simps [simp del]

text \<open>The body of \<open>forEach(ring => ...)\<close>: the loop from index 0.\<close>

definition sampleRing :: "feature \<Rightarrow> burnSeverityPoint list \<Rightarrow> position list \<Rightarrow> burnSeverityPoint list" where
  "sampleRing f points ring = sampleLoop f ring 0 points"

text \<open>
  \<open>processFeature\<close> pushes onto the shared array \<open>points\<close>; the array is passed in and
  returned. \<open>forEach\<close> is a left-to-right fold.
\<close>

definition processFeature :: "feature \<Rightarrow> burnSeverityPoint list \<Rightarrow> burnSeverityPoint list" where
  "processFeature f points =
     (case geometry f of
        None \<Rightarrow> points
      | Some (Point coordinates) \<Rightarrow> points @ [mkPoint f coordinates]
      | Some (Polygon coordinates) \<Rightarrow> foldl (sampleRing f) points coordinates
      | Some (MultiPolygon coordinates) \<Rightarrow>
          foldl (\<lambda>pts polygon. foldl (sampleRing f) pts polygon) points coordinates
      | Some _ \<Rightarrow> points)"

definition extractPointsFromPolygons :: "geojson option \<Rightarrow> burnSeverityPoint list" where
  "extractPointsFromPolygons burnSeverityPolygons =
     (case burnSeverityPolygons of
        None \<Rightarrow> []
      | Some (FeatureCollection features) \<Rightarrow> foldl (\<lambda>pts f. processFeature f pts) [] features
      | Some (Feature f) \<Rightarrow> processFeature f []
      | Some (Geometry g) \<Rightarrow> [])"

text \<open>
  The positions an input offers to the reducer: those of its Point, Polygon and
  MultiPolygon geometries. They serve to state that every emitted point stems from an
  input position.
\<close>

fun geometry_positions :: "geometry \<Rightarrow> position list" where
  "geometry_positions (Point coordinates) = [coordinates]"
| "geometry_positions (Polygon coordinates) = concat coordinates"
| "geometry_positions (MultiPolygon coordinates) = concat (concat coordinates)"
| "geometry_positions _ = []"

definition feature_positions :: "feature \<Rightarrow> position list" where
  "feature_positions f = (case geometry f of None \<Rightarrow> [] | Some g \<Rightarrow> geometry_positions g)"

fun input_positions :: "geojson option \<Rightarrow> position list" where
  "input_positions (Some (FeatureCollection features)) = concat (map feature_positions features)"
| "input_positions (Some (Feature f)) = feature_positions f"
| "input_positions _ = []"

text \<open>The geometry types \<open>processFeature\<close> has a branch for.\<close>

fun supported :: "geometry \<Rightarrow> bool" where
  "supported (Point _) = True"
| "supported (Polygon _) = True"
| "supported (MultiPolygon _) = True"
| "supported _ = False"

text \<open>A feature without geometry, or with a geometry of another type.\<close>

definition skipped :: "feature \<Rightarrow> bool" where
  "skipped f = (case geometry f of None \<Rightarrow> True | Some g \<Rightarrow> \<not> supported g)"

section \<open>Severity classes (\<open>getBurnSeverityColor\<close>, \<open>getSeverityLabel\<close>)\<close>

text \<open>
  A \<open>switch\<close> on the number \<open>severity\<close> (here \<open>level\<close>), compared with \<open>===\<close>,
  with a \<open>default\<close> branch.
\<close>

definition getBurnSeverityColor :: "real \<Rightarrow> string" where
  "getBurnSeverityColor level =
     (if level = 1 then ''#69B34C''
      else if level = 2 then ''#FAB733''
      else if level = 3 then ''#FF8E15''
      else if level = 4 then ''#FF4E11''
      else if level = 5 then ''#FF0D0D''
      else ''#CCCCCC'')"

definition getSeverityLabel :: "real \<Rightarrow> string" where
  "getSeverityLabel level =
     (if level = 1 then ''Low''
      else if level = 2 then ''Moderate''
      else if level = 3 then ''High''
      else if level = 4 then ''Very High''
      else if level = 5 then ''Extreme''
      else ''Unknown'')"

section \<open>JSON values and thrown values\<close>

text \<open>
  A parsed JSON value. An object is the list of its own properties, one entry per key.
\<close>

datatype json =
    JNull
  | JBool bool
  | JNum real
  | JStr string
  | JArr "json list"
  | JObj "(string \<times> json) list"

text \<open>
  Reading a property of a value that is neither \<open>null\<close> nor \<open>undefined\<close>; \<open>None\<close> is
  \<open>undefined\<close>. The code reads only the names \<open>error\<close>, \<open>latitude\<close>, \<open>longitude\<close>,
  \<open>preFireDate\<close>, \<open>postFireDate\<close> and \<open>bufferKm\<close>, none of which a string, a number, a
  boolean or an array has.
\<close>

fun get_property :: "json \<Rightarrow> string \<Rightarrow> json option" where
  "get_property (JObj entries) name = map_of entries name"
| "get_property _ name = None"

text \<open>JavaScript truthiness of a JSON value.\<close>

fun truthy :: "json \<Rightarrow> bool" where
  "truthy JNull = False"
| "truthy (JBool b) = b"
| "truthy (JNum x) = (x \<noteq> 0)"
| "truthy (JStr s) = (s \<noteq> [])"
| "truthy (JArr _) = True"
| "truthy (JObj _) = True"

text \<open>\<open>!v\<close> for a value that may be \<open>undefined\<close>.\<close>

definition falsy :: "json option \<Rightarrow> bool" where
  "falsy v = (case v of None \<Rightarrow> True | Some x \<Rightarrow> \<not> truthy x)"

text \<open>
  A thrown value is an \<open>Error\<close> instance with its message, or anything else. Both
  \<open>catch\<close> blocks that build a message use
  \<open>error instanceof Error ? error.message : "An unknown error occurred"\<close>.
\<close>

datatype thrown = Error string | NonError

definition message_of :: "thrown \<Rightarrow> string" where
  "message_of e = (case e of Error m \<Rightarrow> m | NonError \<Rightarrow> ''An unknown error occurred'')"

section \<open>The API client (\<open>analyzeWildfire\<close>)\<close>

text \<open>Decimal rendering of a status code, as a template literal prints an integer.\<close>

definition digit_char :: "nat \<Rightarrow> char" where
  "digit_char d = ''0123456789'' ! d"

function string_of_nat :: "nat \<Rightarrow> string" where
  "string_of_nat n =
     (if n < 10 then [digit_char n] else string_of_nat (n div 10) @ [digit_char (n mod 10)])"
  by pat_completeness auto
termination
  by (relation "measure id") auto

declare string_of_nat.simps [simp del]

text \<open>
  The body of a response is \<open>null\<close> or a stream, and a stream can be read once. The
  stream carries the outcome of reading it to the end: a thrown value (the transfer broke
  off) or the text of the body. Strings are sequences of code units, which \<open>substring\<close>
  counts.
\<close>

datatype responseBody = NoBody | Stream "thrown + string"

text \<open>The response of \<open>fetch\<close> as far as the client looks at it.\<close>

record response =
  ok :: bool
  status :: nat
  statusText :: string
  response_body :: responseBody

text \<open>
  What the JavaScript engine supplies: \<open>JSON.parse\<close> (\<open>None\<close> when it throws), the texts
  of the \<open>SyntaxError\<close> of a failed parse and of the \<open>TypeError\<close> of reading a body that
  was read before, and the message \<open>new Error(v)\<close> gets for a value \<open>v\<close> that is not a
  string.
\<close>

record engine =
  JSON_parse :: "string \<Rightarrow> json option"
  syntaxErrorText :: string
  bodyUsedErrorText :: string
  messageFor :: "json \<Rightarrow> string"

text \<open>
  Awaiting \<open>response.json()\<close> and \<open>response.text()\<close>. The flag says whether the stream was
  read before; each call returns its outcome and the flag afterwards. A body that was
  read before rejects. A \<open>null\<close> body reads as the empty text, which is not JSON, and is
  never marked as read.
\<close>

definition response_json :: "engine \<Rightarrow> response \<Rightarrow> bool \<Rightarrow> (thrown + json) \<times> bool" where
  "response_json eng r bodyUsed =
     (case response_body r of
        NoBody \<Rightarrow> (Inl (Error (syntaxErrorText eng)), bodyUsed)
      | Stream outcome \<Rightarrow>
          if bodyUsed then (Inl (Error (bodyUsedErrorText eng)), True)
          else (case outcome of
                  Inl e \<Rightarrow> (Inl e, True)
                | Inr raw \<Rightarrow>
                    (case JSON_parse eng raw of
                       None \<Rightarrow> (Inl (Error (syntaxErrorText eng)), True)
                     | Some v \<Rightarrow> (Inr v, True))))"

definition response_text :: "engine \<Rightarrow> response \<Rightarrow> bool \<Rightarrow> (thrown + string) \<times> bool" where
  "response_text eng r bodyUsed =
     (case response_body r of
        NoBody \<Rightarrow> (Inr [], bodyUsed)
      | Stream outcome \<Rightarrow>
          if bodyUsed then (Inl (Error (bodyUsedErrorText eng)), True)
          else (outcome, True))"

text \<open>\<open>new Error(v)\<close>: a string is the message as it is.\<close>

definition ToString :: "engine \<Rightarrow> json \<Rightarrow> string" where
  "ToString eng v = (case v of JStr s \<Rightarrow> s | _ \<Rightarrow> messageFor eng v)"

text \<open>
  The value of \<open>errorMessage\<close> when \<open>throw new Error(errorMessage)\<close> is reached, on a
  response whose body was not read yet.
\<close>

definition errorMessage :: "engine \<Rightarrow> response \<Rightarrow> string" where
  "errorMessage eng r =
     (let generic = ''Server error: '' @ string_of_nat (status r) @ '' '' @ statusText r;
          (parsed, bodyUsed) = response_json eng r False
      in case parsed of
           Inr errorData \<Rightarrow>
             (if truthy errorData
              then (case get_property errorData ''error'' of
                      Some v \<Rightarrow> if truthy v then ToString eng v else generic
                    | None \<Rightarrow> generic)
              else generic)
         | Inl parseError \<Rightarrow>
             (case fst (response_text eng r bodyUsed) of
                Inr textResponse \<Rightarrow> ''Server error: '' @ take 200 textResponse @ ''...''
              | Inl textError \<Rightarrow> generic))"


section \<open>The session store (\<open>useWildfireStore\<close>)\<close>

record location =
  latitude :: real
  longitude :: real

text \<open>
  \<open>AnalysisParams\<close> and \<open>AnalysisResults\<close>. Field names that another record of the
  program also uses carry a prefix here.
\<close>

record analysisParams =
  param_latitude :: real
  param_longitude :: real
  param_preFireDate :: string
  param_postFireDate :: string

record severityStats =
  low :: real
  moderate :: real
  high :: real
  veryHigh :: real
  extreme :: real

record nbrStatistics =
  preFireAvg :: real
  postFireAvg :: real
  dNBRAvg :: real
  dNBRMax :: real

record analysisResults =
  location :: location
  preFireDate :: string
  postFireDate :: string
  dataSource :: string
  totalBurnedArea :: real
  burnSeverityStats :: severityStats
  nbrStats :: nbrStatistics
  images :: "string \<rightharpoonup> string"
  results_burnSeverityPolygons :: "geojson option"
  results_status :: "string option"
  timestamp :: "string option"

record layers =
  burnSeverity :: bool

text \<open>The data fields of \<open>WildfireStore\<close>; \<open>null\<close> is \<open>None\<close>.\<close>

record store =
  selectedLocation :: "location option"
  analysisResults :: "analysisResults option"
  burnSeverityPolygons :: "geojson option"
  isLoading :: bool
  error :: "string option"
  visibleLayers :: layers

definition initialStore :: store where
  "initialStore =
     \<lparr> selectedLocation = None, analysisResults = None, burnSeverityPolygons = None,
       isLoading = False, error = None, visibleLayers = \<lparr> burnSeverity = True \<rparr> \<rparr>"

definition setSelectedLocation :: "location \<Rightarrow> store \<Rightarrow> store" where
  "setSelectedLocation loc s =
     s\<lparr> selectedLocation := Some loc,
        analysisResults := None,
        burnSeverityPolygons := None,
        error := None \<rparr>"

text \<open>The only key of \<open>visibleLayers\<close> is \<open>burnSeverity\<close>.\<close>

definition toggleLayerVisibility :: "store \<Rightarrow> store" where
  "toggleLayerVisibility s =
     s\<lparr> visibleLayers := (visibleLayers s)\<lparr> burnSeverity := \<not> burnSeverity (visibleLayers s) \<rparr> \<rparr>"

text \<open>
  \<open>runAnalysis\<close> writes the store twice: once before the request is awaited, and once
  when it settles, in the \<open>try\<close> block or in the \<open>catch\<close> block. Other transitions may
  run in between, so each write is a function of the store it finds.
\<close>

definition runAnalysis_start :: "store \<Rightarrow> store" where
  "runAnalysis_start s = s\<lparr> isLoading := True, error := None \<rparr>"

definition runAnalysis_resolved :: "analysisResults \<Rightarrow> store \<Rightarrow> store" where
  "runAnalysis_resolved results s =
     (let geojsonData =
            (case results_burnSeverityPolygons results of None \<Rightarrow> None | Some g \<Rightarrow> Some g)
      in s\<lparr> analysisResults := Some results,
            burnSeverityPolygons := geojsonData,
            isLoading := False \<rparr>)"

definition runAnalysis_rejected :: "thrown \<Rightarrow> store \<Rightarrow> store" where
  "runAnalysis_rejected e s = s\<lparr> error := Some (message_of e), isLoading := False \<rparr>"

definition runAnalysis_settle :: "thrown + analysisResults \<Rightarrow> store \<Rightarrow> store" where
  "runAnalysis_settle outcome s =
     (case outcome of
        Inr results \<Rightarrow> runAnalysis_resolved results s
      | Inl e \<Rightarrow> runAnalysis_rejected e s)"

text \<open>
  The whole call with nothing interleaved; \<open>api\<close> is the outcome of awaiting
  \<open>analyzeWildfire(params)\<close>, at the result type the client declares.
\<close>

definition runAnalysis ::
  "(analysisParams \<Rightarrow> thrown + analysisResults) \<Rightarrow> analysisParams \<Rightarrow> store \<Rightarrow> store" where
  "runAnalysis api params s = runAnalysis_settle (api params) (runAnalysis_start s)"

definition clearAnalysis :: "store \<Rightarrow> store" where
  "clearAnalysis s =
     s\<lparr> analysisResults := None,
        burnSeverityPolygons := None,
        error := None \<rparr>"

text \<open>
  \<open>handleUseMockData\<close> of the analysis panel. \<open>getMockAnalysisResults\<close> is imported from
  the module \<open>@/lib/mock\<close> and is a parameter here; the two dates are the panel's
  local state.
\<close>

definition handleUseMockData ::
  "(analysisParams \<Rightarrow> analysisResults) \<Rightarrow> string \<Rightarrow> string \<Rightarrow> store \<Rightarrow> store" where
  "handleUseMockData getMockAnalysisResults preDate postDate s =
     (case selectedLocation s of
        None \<Rightarrow> s
      | Some loc \<Rightarrow>
          (let mockResults = getMockAnalysisResults
                 \<lparr> param_latitude = latitude loc, param_longitude = longitude loc,
                   param_preFireDate = preDate, param_postFireDate = postDate \<rparr>
           in s\<lparr> analysisResults := Some mockResults,
                 burnSeverityPolygons := results_burnSeverityPolygons mockResults,
                 error := None,
                 isLoading := False \<rparr>))"

text \<open>The fixture \<open>mockAnalysisResults\<close> of \<open>mock-data.ts\<close>; it carries no polygons.\<close>

definition mockAnalysisResults :: analysisResults where
  "mockAnalysisResults =
     \<lparr> location = \<lparr> latitude = 37.7749, longitude = - 122.4194 \<rparr>,
       preFireDate = ''2023-06-01'',
       postFireDate = ''2023-08-01'',
       dataSource = ''Sentinel-2'',
       totalBurnedArea = 42.75,
       burnSeverityStats =
         \<lparr> low = 12.5, moderate = 15.3, high = 8.7, veryHigh = 4.2, extreme = 2.05 \<rparr>,
       nbrStats =
         \<lparr> preFireAvg = 0.412, postFireAvg = 0.187, dNBRAvg = 0.225, dNBRMax = 0.687 \<rparr>,
       images = map_of
         [(''preFireImage'', ''/placeholder.svg?height=400&width=600''),
          (''postFireImage'', ''/placeholder.svg?height=400&width=600''),
          (''preFireNBR'', ''/placeholder.svg?height=400&width=600''),
          (''postFireNBR'', ''/placeholder.svg?height=400&width=600''),
          (''dNBR'', ''/placeholder.svg?height=400&width=600''),
          (''burnSeverity'', ''/placeholder.svg?height=400&width=600''),
          (''burnSeverityLegend'', ''/placeholder.svg?height=100&width=400'')],
       results_burnSeverityPolygons = None,
       results_status = None,
       timestamp = None \<rparr>"

text \<open>
  The store has no status field. The four statuses of a session are read off its fields
  the way the views read them: the blocking indicator is shown while \<open>isLoading\<close>, the
  error banner when \<open>error\<close> is set, the result tabs when \<open>analysisResults\<close> is set.
\<close>

datatype sessionStatus = Idle | Running | Succeeded | Failed

definition status_of :: "store \<Rightarrow> sessionStatus" where
  "status_of s =
     (if isLoading s then Running
      else if error s \<noteq> None then Failed
      else if analysisResults s \<noteq> None then Succeeded
      else Idle)"

section \<open>The API route (\<open>POST /api/analyze-wildfire\<close>)\<close>

text \<open>\<open>NextResponse.json(body, { status })\<close>.\<close>

record reply =
  reply_status :: nat
  reply_body :: json

definition error_reply :: "nat \<Rightarrow> string \<Rightarrow> reply" where
  "error_reply code msg = \<lparr> reply_status = code, reply_body = JObj [(''error'', JStr msg)] \<rparr>"

text \<open>
  The handler, given the outcome of awaiting \<open>request.json()\<close>. Destructuring \<open>null\<close>
  throws a \<open>TypeError\<close>, whose text the engine chooses (\<open>typeErrorText\<close>). Everything
  after the validation (the script run, the result file, the images) depends on the file
  system and the child process; it is the parameter \<open>runScript\<close>, which gets the five
  destructured values and replies or throws. The outer \<open>catch\<close> turns every thrown value
  into a 500 reply.
\<close>

definition POST ::
  "string \<Rightarrow> (json option \<Rightarrow> json option \<Rightarrow> json option \<Rightarrow> json option \<Rightarrow> json \<Rightarrow> thrown + reply)
   \<Rightarrow> thrown + json \<Rightarrow> reply" where
  "POST typeErrorText runScript request_json =
     (let attempt =
        (case request_json of
           Inl e \<Rightarrow> Inl e
         | Inr JNull \<Rightarrow> Inl (Error typeErrorText)
         | Inr body \<Rightarrow>
             (let latitude = get_property body ''latitude'';
                  longitude = get_property body ''longitude'';
                  preFireDate = get_property body ''preFireDate'';
                  postFireDate = get_property body ''postFireDate'';
                  bufferKm = (case get_property body ''bufferKm'' of None \<Rightarrow> JNum 5 | Some v \<Rightarrow> v)
              in if falsy latitude \<or> falsy longitude \<or> falsy preFireDate \<or> falsy postFireDate
                 then Inr (error_reply 400 ''Missing required parameters'')
                 else runScript latitude longitude preFireDate postFireDate bufferKm))
      in case attempt of
           Inr r \<Rightarrow> r
         | Inl e \<Rightarrow> error_reply 500 (message_of e))"

section \<open>Properties of the geometry reduction\<close>

subsection \<open>The sampling loop in closed form\<close>

lemma count_step:
  assumes "0 < s" "i < n"
  shows "(n - i + s - 1) div s = Suc ((n - (i + s) + s - 1) div s)"
proof (cases "i + s < n")
  case True
  then have e: "n - i + s - 1 = (n - (i + s) + s - 1) + s" using assms by arith
  have "(m + s) div s = Suc (m div s)" for m
    using assms(1) by simp
  then show ?thesis by (simp only: e)
next
  case False
  then have a: "n - (i + s) = 0" by arith
  have b: "(s - 1) div s = 0" using assms(1) by simp
  have "n - i + s - 1 < 2 * s" using False assms by arith
  moreover have "s \<le> n - i + s - 1" using assms by arith
  ultimately have "(n - i + s - 1) div s = 1"
    using assms(1) by (intro div_nat_eqI) simp_all
  moreover have "(n - (i + s) + s - 1) div s = 0" using a b by simp
  ultimately show ?thesis by simp
qed

lemma ceil_div_nat:
  assumes "0 < s"
  shows "nat \<lceil>real n / real s\<rceil> = (n + s - 1) div s"
proof -
  define q where "q = (n + s - 1) div s"
  have lo: "q * s \<le> n + s - 1"
    unfolding q_def by (rule div_times_less_eq_dividend)
  have hi: "n + s - 1 < s + q * s"
    unfolding q_def using assms by (rule dividend_less_div_times)
  have "n \<le> q * s" using hi assms by arith
  then have "real n \<le> real (q * s)" by (simp only: of_nat_le_iff)
  then have a: "real n \<le> real q * real s" by simp
  have "q * s < n + s" using lo assms by arith
  then have "real (q * s) < real (n + s)" by (simp only: of_nat_less_iff)
  then have b: "real q * real s < real n + real s" by simp
  have rs: "0 < real s" using assms by simp
  have "real n / real s \<le> real q"
    using a rs by (simp add: pos_divide_le_eq)
  moreover have "(real q - 1) * real s < real n"
    using b by (simp add: algebra_simps)
  then have "real q - 1 < real n / real s"
    using rs by (simp add: pos_less_divide_eq)
  ultimately have "\<lceil>real n / real s\<rceil> = int q"
    by (intro ceiling_unique) simp_all
  then show ?thesis by (simp add: q_def)
qed

lemma sampleLoop_step:
  "i < length ring \<Longrightarrow>
   sampleLoop f ring i points =
     sampleLoop f ring (i + max 1 (length ring div 10)) (points @ [mkPoint f (ring ! i)])"
  by (subst sampleLoop.simps) (simp only: if_True)

lemma sampleLoop_stop: "\<not> i < length ring \<Longrightarrow> sampleLoop f ring i points = points"
  by (subst sampleLoop.simps) (simp only: if_False)

lemma sampleLoop_closed:
  "sampleLoop f ring i points =
     points @ map (\<lambda>k. mkPoint f (ring ! (i + k * max 1 (length ring div 10))))
                  [0 ..< (length ring - i + max 1 (length ring div 10) - 1)
                           div max 1 (length ring div 10)]"
proof (induction f ring i points rule: sampleLoop.induct)
  case (1 f ring i points)
  define s where "s = max 1 (length ring div 10)"
  define m where "m = (length ring - (i + s) + s - 1) div s"
  have s_pos: "0 < s" by (simp add: s_def)
  show ?case
  proof (cases "i < length ring")
    case True
    have cnt: "(length ring - i + s - 1) div s = Suc m"
      unfolding m_def using s_pos True by (rule count_step)
    have IH: "sampleLoop f ring (i + s) (points @ [mkPoint f (ring ! i)]) =
        (points @ [mkPoint f (ring ! i)]) @ map (\<lambda>k. mkPoint f (ring ! (i + s + k * s))) [0 ..< m]"
      using "1.IH" [OF True] by (simp only: s_def m_def)
    have shift: "map (\<lambda>k. mkPoint f (ring ! (i + k * s))) [0 ..< Suc m] =
        mkPoint f (ring ! i) # map (\<lambda>k. mkPoint f (ring ! (i + s + k * s))) [0 ..< m]"
      by (simp add: upt_conv_Cons map_Suc_upt [symmetric] o_def add.assoc del: upt_Suc)
    have "sampleLoop f ring i points = sampleLoop f ring (i + s) (points @ [mkPoint f (ring ! i)])"
      unfolding s_def using True by (rule sampleLoop_step)
    also note IH
    finally show ?thesis
      unfolding s_def [symmetric] by (simp only: cnt shift append_assoc append_Cons append_Nil)
  next
    case False
    then have "(length ring - i + s - 1) div s = 0" using s_pos by simp
    moreover have "sampleLoop f ring i points = points"
      using False by (rule sampleLoop_stop)
    ultimately show ?thesis unfolding s_def [symmetric] by simp
  qed
qed

lemma sampleRing_closed:
  "sampleRing f points ring =
     points @ map (\<lambda>k. mkPoint f (ring ! (k * max 1 (length ring div 10))))
                  [0 ..< nat \<lceil>real (length ring) / real (max 1 (length ring div 10))\<rceil>]"
proof -
  have "0 < max 1 (length ring div 10)" by simp
  then have "nat \<lceil>real (length ring) / real (max 1 (length ring div 10))\<rceil> =
      (length ring + max 1 (length ring div 10) - 1) div max 1 (length ring div 10)"
    by (rule ceil_div_nat)
  then show ?thesis
    unfolding sampleRing_def by (simp add: sampleLoop_closed)
qed

lemma sampleRing_append: "sampleRing f points ring = points @ sampleRing f [] ring"
  by (simp add: sampleRing_closed)

lemma foldl_sampleRing:
  "foldl (sampleRing f) points rings = points @ concat (map (sampleRing f []) rings)"
proof (induction rings arbitrary: points)
  case Nil
  show ?case by simp
next
  case (Cons ring rings)
  have "foldl (sampleRing f) points (ring # rings) = foldl (sampleRing f) (sampleRing f points ring) rings"
    by simp
  also have "\<dots> = sampleRing f points ring @ concat (map (sampleRing f []) rings)"
    by (rule Cons.IH)
  also have "\<dots> = points @ concat (map (sampleRing f []) (ring # rings))"
    by (simp add: sampleRing_append [of f points ring])
  finally show ?case .
qed

lemma foldl_polygons:
  "foldl (\<lambda>pts polygon. foldl (sampleRing f) pts polygon) points polygons =
     points @ concat (map (sampleRing f []) (concat polygons))"
proof (induction polygons arbitrary: points)
  case Nil
  show ?case by simp
next
  case (Cons polygon polygons)
  show ?case by (simp add: Cons.IH foldl_sampleRing [of f points polygon])
qed

lemma sample_count_le:
  "nat \<lceil>real n / real (max 1 (n div 10))\<rceil> \<le> n"
proof -
  define s where "s = max 1 (n div 10)"
  have s_pos: "0 < s" by (simp add: s_def)
  have ceil: "nat \<lceil>real n / real s\<rceil> = (n + s - 1) div s"
    using s_pos by (rule ceil_div_nat)
  have "(n + s - 1) div s \<le> n"
  proof (cases n)
    case 0
    then show ?thesis using s_pos by simp
  next
    case (Suc n')
    have "n' \<le> n' * s" using s_pos by simp
    then have "n + s - 1 \<le> n * s" unfolding Suc by simp
    then have "(n + s - 1) div s \<le> (n * s) div s" by (rule div_le_mono)
    also have "(n * s) div s = n" using s_pos by simp
    finally show ?thesis .
  qed
  then show ?thesis unfolding s_def [symmetric] by (simp only: ceil)
qed

lemma sample_index_in_range:
  assumes "k < nat \<lceil>real n / real (max 1 (n div 10))\<rceil>"
  shows "k * max 1 (n div 10) < n"
proof -
  define s where "s = max 1 (n div 10)"
  have s_pos: "0 < s" by (simp add: s_def)
  have ceil: "nat \<lceil>real n / real s\<rceil> = (n + s - 1) div s"
    using s_pos by (rule ceil_div_nat)
  have "Suc k \<le> (n + s - 1) div s"
    using assms unfolding s_def [symmetric] ceil by simp
  then have "Suc k * s \<le> ((n + s - 1) div s) * s" by (rule mult_le_mono1)
  also have "\<dots> \<le> n + s - 1" by (rule div_times_less_eq_dividend)
  finally have "k * s + s \<le> n + s - 1" by simp
  then have "k * s < n" using s_pos by arith
  then show ?thesis by (simp only: s_def)
qed

lemma sampleRing_small:
  assumes "length ring \<le> 10"
  shows "sampleRing f points ring = points @ map (mkPoint f) ring"
proof -
  have s1: "max 1 (length ring div 10) = 1"
  proof (cases "length ring = 10")
    case True
    then show ?thesis by simp
  next
    case False
    then have "length ring < 10" using assms by simp
    then show ?thesis by simp
  qed
  have "map (\<lambda>k. mkPoint f (ring ! k)) [0 ..< length ring] = map (mkPoint f) (map ((!) ring) [0 ..< length ring])"
    by (simp add: o_def)
  also have "\<dots> = map (mkPoint f) ring" by (simp only: map_nth)
  finally have nth: "map (\<lambda>k. mkPoint f (ring ! k)) [0 ..< length ring] = map (mkPoint f) ring" .
  have "sampleRing f points ring =
      points @ map (\<lambda>k. mkPoint f (ring ! (k * 1))) [0 ..< nat \<lceil>real (length ring) / real (1::nat)\<rceil>]"
    using sampleRing_closed [of f points ring] by (simp only: s1)
  then show ?thesis by (simp add: nth)
qed

lemma processFeature_Polygon:
  "geometry f = Some (Polygon rings) \<Longrightarrow>
   processFeature f points = points @ concat (map (sampleRing f []) rings)"
  by (simp add: processFeature_def foldl_sampleRing)

lemma processFeature_MultiPolygon:
  "geometry f = Some (MultiPolygon polygons) \<Longrightarrow>
   processFeature f points = points @ concat (map (sampleRing f []) (concat polygons))"
  by (simp add: processFeature_def foldl_polygons)

lemma processFeature_append: "processFeature f points = points @ processFeature f []"
proof (cases "geometry f")
  case None
  then show ?thesis by (simp add: processFeature_def)
next
  case (Some g)
  show ?thesis
  proof (cases g)
    case (Point c)
    then show ?thesis using Some by (simp add: processFeature_def)
  next
    case (Polygon rings)
    then show ?thesis
      using Some processFeature_Polygon [of f rings points] processFeature_Polygon [of f rings "[]"]
      by simp
  next
    case (MultiPolygon polygons)
    then show ?thesis
      using Some processFeature_MultiPolygon [of f polygons points]
        processFeature_MultiPolygon [of f polygons "[]"]
      by simp
  qed (use Some in \<open>simp_all add: processFeature_def\<close>)
qed

lemma foldl_processFeature:
  "foldl (\<lambda>pts f. processFeature f pts) points features
     = points @ concat (map (\<lambda>f. processFeature f []) features)"
proof (induction features arbitrary: points)
  case Nil
  show ?case by simp
next
  case (Cons f features)
  show ?case by (simp add: Cons.IH processFeature_append [of f points])
qed

lemma extract_FeatureCollection:
  "extractPointsFromPolygons (Some (FeatureCollection features))
     = concat (map (\<lambda>f. extractPointsFromPolygons (Some (Feature f))) features)"
  by (simp add: extractPointsFromPolygons_def foldl_processFeature)

lemma sampleRing_points:
  "sampleRing f [] ring =
     map (\<lambda>k. \<lparr> latlng = (coord_at (ring ! (k * max 1 (length ring div 10))) 1,
                          coord_at (ring ! (k * max 1 (length ring div 10))) 0),
                properties = \<lparr> severity = property f ''severity'', area = property f ''area'' \<rparr> \<rparr>)
         [0 ..< nat \<lceil>real (length ring) / real (max 1 (length ring div 10))\<rceil>]"
  unfolding sampleRing_closed [of f "[]" ring] mkPoint_def by (simp only: append_Nil)

lemma sampleRing_small_points:
  "length ring \<le> 10 \<Longrightarrow>
   sampleRing f [] ring =
     map (\<lambda>c. \<lparr> latlng = (coord_at c 1, coord_at c 0),
                properties = \<lparr> severity = property f ''severity'', area = property f ''area'' \<rparr> \<rparr>)
         ring"
  unfolding sampleRing_small [of ring f "[]"] mkPoint_def by (simp only: append_Nil)

lemma concat_small_rings:
  assumes "\<forall>r \<in> set rings. length r \<le> 10"
  shows "concat (map (sampleRing f []) rings) =
     map (\<lambda>c. \<lparr> latlng = (coord_at c 1, coord_at c 0),
                properties = \<lparr> severity = property f ''severity'', area = property f ''area'' \<rparr> \<rparr>)
         (concat rings)"
  using assms
proof (induction rings)
  case Nil
  show ?case by simp
next
  case (Cons r rings)
  have "length r \<le> 10" using Cons.prems by simp
  then have "sampleRing f [] r =
     map (\<lambda>c. \<lparr> latlng = (coord_at c 1, coord_at c 0),
                properties = \<lparr> severity = property f ''severity'', area = property f ''area'' \<rparr> \<rparr>) r"
    by (rule sampleRing_small_points)
  moreover have "concat (map (sampleRing f []) rings) =
     map (\<lambda>c. \<lparr> latlng = (coord_at c 1, coord_at c 0),
                properties = \<lparr> severity = property f ''severity'', area = property f ''area'' \<rparr> \<rparr>)
         (concat rings)"
    using Cons.prems by (intro Cons.IH) simp
  ultimately show ?case by simp
qed

text \<open>
  Claim C1. For a Polygon feature, and for every polygon of a MultiPolygon feature, each
  ring is sampled on its own and the samples are appended in ring order. A ring of length
  \<open>N\<close> is read at the indices \<open>0, stride, 2 * stride, ...\<close> below \<open>N\<close>, where
  \<open>stride = max 1 (N div 10)\<close>; that makes exactly \<open>\<lceil>N / stride\<rceil>\<close> points, never more
  than \<open>N\<close>, every index read lies inside the ring, and a ring of at most ten positions
  gives one point per position. The reducer returns exactly these points: for a feature,
  the point of each sampled position (its two coordinates swapped, with the feature's
  severity and area) ring after ring, and for a collection the points of its features one
  after the other.
\<close>

theorem C1_ring_sampling:
  "(let N = length ring;
        stride = max 1 (N div 10);
        count = nat \<lceil>real N / real stride\<rceil>
    in sampleRing f points ring =
         points @ map (\<lambda>k. mkPoint f (ring ! (k * stride))) [0 ..< count]
       \<and> length (sampleRing f [] ring) = count
       \<and> (\<forall>k < count. k * stride < N)
       \<and> count \<le> N
       \<and> (N \<le> 10 \<longrightarrow> sampleRing f points ring = points @ map (mkPoint f) ring))
   \<and> (geometry f = Some (Polygon rings) \<longrightarrow>
        processFeature f points = points @ concat (map (sampleRing f []) rings))
   \<and> (geometry f = Some (MultiPolygon polygons) \<longrightarrow>
        processFeature f points = points @ concat (map (sampleRing f []) (concat polygons)))
   \<and> (let point = (\<lambda>c. \<lparr> latlng = (coord_at c 1, coord_at c 0),
                           properties = \<lparr> severity = property f ''severity'',
                                          area = property f ''area'' \<rparr> \<rparr>);
            sample = (\<lambda>r. map (\<lambda>k. point (r ! (k * max 1 (length r div 10))))
                            [0 ..< nat \<lceil>real (length r) / real (max 1 (length r div 10))\<rceil>])
        in (geometry f = Some (Polygon rings) \<longrightarrow>
              extractPointsFromPolygons (Some (Feature f)) = concat (map sample rings))
           \<and> (geometry f = Some (MultiPolygon polygons) \<longrightarrow>
              extractPointsFromPolygons (Some (Feature f)) = concat (map sample (concat polygons)))
           \<and> (geometry f = Some (Polygon rings) \<and> (\<forall>r \<in> set rings. length r \<le> 10) \<longrightarrow>
              extractPointsFromPolygons (Some (Feature f)) = map point (concat rings))
           \<and> (geometry f = Some (MultiPolygon polygons)
                \<and> (\<forall>r \<in> set (concat polygons). length r \<le> 10) \<longrightarrow>
              extractPointsFromPolygons (Some (Feature f)) = map point (concat (concat polygons))))
   \<and> extractPointsFromPolygons (Some (FeatureCollection features))
       = concat (map (\<lambda>x. extractPointsFromPolygons (Some (Feature x))) features)"
proof -
  have len: "length (sampleRing f [] ring) =
      nat \<lceil>real (length ring) / real (max 1 (length ring div 10))\<rceil>"
    by (simp add: sampleRing_closed)
  have old: "(let N = length ring;
        stride = max 1 (N div 10);
        count = nat \<lceil>real N / real stride\<rceil>
    in sampleRing f points ring =
         points @ map (\<lambda>k. mkPoint f (ring ! (k * stride))) [0 ..< count]
       \<and> length (sampleRing f [] ring) = count
       \<and> (\<forall>k < count. k * stride < N)
       \<and> count \<le> N
       \<and> (N \<le> 10 \<longrightarrow> sampleRing f points ring = points @ map (mkPoint f) ring))
   \<and> (geometry f = Some (Polygon rings) \<longrightarrow>
        processFeature f points = points @ concat (map (sampleRing f []) rings))
   \<and> (geometry f = Some (MultiPolygon polygons) \<longrightarrow>
        processFeature f points = points @ concat (map (sampleRing f []) (concat polygons)))"
    unfolding Let_def
    using sampleRing_closed [of f points ring] len sample_index_in_range [of _ "length ring"]
      sample_count_le [of "length ring"] sampleRing_small [of ring f points]
      processFeature_Polygon [of f rings points] processFeature_MultiPolygon [of f polygons points]
    by blast
  have sample: "sampleRing f [] =
      (\<lambda>r. map (\<lambda>k. \<lparr> latlng = (coord_at (r ! (k * max 1 (length r div 10))) 1,
                               coord_at (r ! (k * max 1 (length r div 10))) 0),
                     properties = \<lparr> severity = property f ''severity'', area = property f ''area'' \<rparr> \<rparr>)
            [0 ..< nat \<lceil>real (length r) / real (max 1 (length r div 10))\<rceil>])"
    by (rule ext) (rule sampleRing_points)
  have poly: "extractPointsFromPolygons (Some (Feature f)) = concat (map (sampleRing f []) rings)"
    if "geometry f = Some (Polygon rings)"
    using processFeature_Polygon [OF that, of "[]"] by (simp add: extractPointsFromPolygons_def)
  have multi: "extractPointsFromPolygons (Some (Feature f)) = concat (map (sampleRing f []) (concat polygons))"
    if "geometry f = Some (MultiPolygon polygons)"
    using processFeature_MultiPolygon [OF that, of "[]"] by (simp add: extractPointsFromPolygons_def)
  have new: "(let point = (\<lambda>c. \<lparr> latlng = (coord_at c 1, coord_at c 0),
                           properties = \<lparr> severity = property f ''severity'',
                                          area = property f ''area'' \<rparr> \<rparr>);
            sample = (\<lambda>r. map (\<lambda>k. point (r ! (k * max 1 (length r div 10))))
                            [0 ..< nat \<lceil>real (length r) / real (max 1 (length r div 10))\<rceil>])
        in (geometry f = Some (Polygon rings) \<longrightarrow>
              extractPointsFromPolygons (Some (Feature f)) = concat (map sample rings))
           \<and> (geometry f = Some (MultiPolygon polygons) \<longrightarrow>
              extractPointsFromPolygons (Some (Feature f)) = concat (map sample (concat polygons)))
           \<and> (geometry f = Some (Polygon rings) \<and> (\<forall>r \<in> set rings. length r \<le> 10) \<longrightarrow>
              extractPointsFromPolygons (Some (Feature f)) = map point (concat rings))
           \<and> (geometry f = Some (MultiPolygon polygons)
                \<and> (\<forall>r \<in> set (concat polygons). length r \<le> 10) \<longrightarrow>
              extractPointsFromPolygons (Some (Feature f)) = map point (concat (concat polygons))))"
    unfolding Let_def
    using poly multi concat_small_rings [of rings f] concat_small_rings [of "concat polygons" f]
    unfolding sample
    by auto
  note fc = extract_FeatureCollection [of features]
  show ?thesis
    by (rule conjI [OF old [THEN conjunct1] conjI [OF old [THEN conjunct2, THEN conjunct1]
          conjI [OF old [THEN conjunct2, THEN conjunct2] conjI [OF new fc]]]])
qed

text \<open>
  C1 at a polygon of three positions with severity and area, at a collection of a
  multi-polygon and a polygon whose ring has 25 positions (stride 2, 13 points), and at
  that polygon alone.
\<close>

theorem C1_ring_sampling_witness:
  "extractPointsFromPolygons (Some (Feature
        \<lparr> geometry = Some (Polygon [[[1, 2], [3, 4], [5, 6]]]),
          feature_properties = Some (map_of [(''severity'', 3), (''area'', 1.5)]) \<rparr>))
     = [\<lparr> latlng = (Some 2, Some 1), properties = \<lparr> severity = Some 3, area = Some 1.5 \<rparr> \<rparr>,
        \<lparr> latlng = (Some 4, Some 3), properties = \<lparr> severity = Some 3, area = Some 1.5 \<rparr> \<rparr>,
        \<lparr> latlng = (Some 6, Some 5), properties = \<lparr> severity = Some 3, area = Some 1.5 \<rparr> \<rparr>]
   \<and> map latlng (extractPointsFromPolygons (Some (FeatureCollection
        [\<lparr> geometry = Some (MultiPolygon [[[[1, 2]]], [[[3, 4]]]]), feature_properties = None \<rparr>,
         \<lparr> geometry = Some (Polygon
           [[[0, 100], [1, 101], [2, 102], [3, 103], [4, 104], [5, 105], [6, 106], [7, 107],
             [8, 108], [9, 109], [10, 110], [11, 111], [12, 112], [13, 113], [14, 114], [15, 115],
             [16, 116], [17, 117], [18, 118], [19, 119], [20, 120], [21, 121], [22, 122],
             [23, 123], [24, 124]]]),
          feature_properties = None \<rparr>])))
     = [(Some 2, Some 1), (Some 4, Some 3), (Some 100, Some 0), (Some 102, Some 2),
        (Some 104, Some 4), (Some 106, Some 6), (Some 108, Some 8), (Some 110, Some 10),
        (Some 112, Some 12), (Some 114, Some 14), (Some 116, Some 16), (Some 118, Some 18),
        (Some 120, Some 20), (Some 122, Some 22), (Some 124, Some 24)]
   \<and> length (extractPointsFromPolygons (Some (Feature
        \<lparr> geometry = Some (Polygon
           [[[0, 100], [1, 101], [2, 102], [3, 103], [4, 104], [5, 105], [6, 106], [7, 107],
             [8, 108], [9, 109], [10, 110], [11, 111], [12, 112], [13, 113], [14, 114], [15, 115],
             [16, 116], [17, 117], [18, 118], [19, 119], [20, 120], [21, 121], [22, 122],
             [23, 123], [24, 124]]]),
          feature_properties = None \<rparr>))) = 13
   \<and> (12::nat) * 2 < 25"
proof -
  let ?r3 = "[[1, 2], [3, 4], [5, 6]] :: position list"
  let ?p3 = "\<lparr> geometry = Some (Polygon [?r3]),
          feature_properties = Some (map_of [(''severity'', 3), (''area'', 1.5)]) \<rparr>"
  let ?m = "\<lparr> geometry = Some (MultiPolygon [[[[1, 2]]], [[[3, 4]]]]), feature_properties = None \<rparr>"
  let ?r25 = "[[0, 100], [1, 101], [2, 102], [3, 103], [4, 104], [5, 105], [6, 106], [7, 107],
             [8, 108], [9, 109], [10, 110], [11, 111], [12, 112], [13, 113], [14, 114], [15, 115],
             [16, 116], [17, 117], [18, 118], [19, 119], [20, 120], [21, 121], [22, 122],
             [23, 123], [24, 124]] :: position list"
  let ?p25 = "\<lparr> geometry = Some (Polygon [?r25]), feature_properties = None \<rparr>"
  note t3 = C1_ring_sampling [where f = ?p3 and rings = "[?r3]",
      THEN conjunct2, THEN conjunct2, THEN conjunct2, THEN conjunct1, unfolded Let_def]
  note tm = C1_ring_sampling [where f = ?m and polygons = "[[[[1, 2]]], [[[3, 4]]]]",
      THEN conjunct2, THEN conjunct2, THEN conjunct2, THEN conjunct1, unfolded Let_def]
  note t25 = C1_ring_sampling [where f = ?p25 and rings = "[?r25]",
      THEN conjunct2, THEN conjunct2, THEN conjunct2, THEN conjunct1, unfolded Let_def]
  note tc = C1_ring_sampling [where features = "[?m, ?p25]",
      THEN conjunct2, THEN conjunct2, THEN conjunct2, THEN conjunct2]
  note idx = C1_ring_sampling [where ring = ?r25,
      THEN conjunct1, unfolded Let_def, THEN conjunct2, THEN conjunct2, THEN conjunct1]
  have g3: "geometry ?p3 = Some (Polygon [?r3]) \<and> (\<forall>r \<in> set [?r3]. length r \<le> 10)"
    by simp
  have gm: "geometry ?m = Some (MultiPolygon [[[[1, 2]]], [[[3, 4]]]])
      \<and> (\<forall>r \<in> set (concat [[[[1, 2]]], [[[3, 4 :: real]]]]). length r \<le> 10)"
    by simp
  have g25: "geometry ?p25 = Some (Polygon [?r25])"
    by simp
  have a: "extractPointsFromPolygons (Some (Feature ?p3))
     = [\<lparr> latlng = (Some 2, Some 1), properties = \<lparr> severity = Some 3, area = Some 1.5 \<rparr> \<rparr>,
        \<lparr> latlng = (Some 4, Some 3), properties = \<lparr> severity = Some 3, area = Some 1.5 \<rparr> \<rparr>,
        \<lparr> latlng = (Some 6, Some 5), properties = \<lparr> severity = Some 3, area = Some 1.5 \<rparr> \<rparr>]"
    unfolding t3 [THEN conjunct2, THEN conjunct2, THEN conjunct1, THEN mp, OF g3]
    by (simp add: coord_at_def property_def)
  have m: "map latlng (extractPointsFromPolygons (Some (Feature ?m))) = [(Some 2, Some 1), (Some 4, Some 3)]"
    unfolding tm [THEN conjunct2, THEN conjunct2, THEN conjunct2, THEN mp, OF gm]
    by (simp add: coord_at_def)
  have p: "map latlng (extractPointsFromPolygons (Some (Feature ?p25)))
     = [(Some 100, Some 0), (Some 102, Some 2), (Some 104, Some 4), (Some 106, Some 6),
         (Some 108, Some 8), (Some 110, Some 10), (Some 112, Some 12), (Some 114, Some 14),
         (Some 116, Some 16), (Some 118, Some 18), (Some 120, Some 20), (Some 122, Some 22),
         (Some 124, Some 24)]"
    unfolding t25 [THEN conjunct1, THEN mp, OF g25]
    by code_simp
  have b: "map latlng (extractPointsFromPolygons (Some (FeatureCollection [?m, ?p25])))
     = [(Some 2, Some 1), (Some 4, Some 3), (Some 100, Some 0), (Some 102, Some 2),
        (Some 104, Some 4), (Some 106, Some 6), (Some 108, Some 8), (Some 110, Some 10),
        (Some 112, Some 12), (Some 114, Some 14), (Some 116, Some 16), (Some 118, Some 18),
        (Some 120, Some 20), (Some 122, Some 22), (Some 124, Some 24)]"
    unfolding tc using m p by simp
  have c: "length (extractPointsFromPolygons (Some (Feature ?p25))) = 13"
    using arg_cong [OF p, of length] by simp
  have d: "(12::nat) * 2 < 25"
    using idx by simp
  show ?thesis using a b c d by (simp only: simp_thms)
qed

subsection \<open>Axis order\<close>

lemma sampleRing_set:
  "set (sampleRing f [] ring) \<subseteq> mkPoint f ` set ring"
proof
  fix p assume "p \<in> set (sampleRing f [] ring)"
  then obtain k where k: "k < nat \<lceil>real (length ring) / real (max 1 (length ring div 10))\<rceil>"
      and p: "p = mkPoint f (ring ! (k * max 1 (length ring div 10)))"
    unfolding sampleRing_closed [of f "[]" ring] by auto
  have "k * max 1 (length ring div 10) < length ring"
    using k by (rule sample_index_in_range)
  then have "ring ! (k * max 1 (length ring div 10)) \<in> set ring" by (rule nth_mem)
  then show "p \<in> mkPoint f ` set ring" unfolding p by (rule imageI)
qed

lemma processFeature_set:
  "set (processFeature f points) \<subseteq> set points \<union> mkPoint f ` set (feature_positions f)"
proof (cases "geometry f")
  case None
  then show ?thesis by (simp add: processFeature_def)
next
  case (Some g)
  show ?thesis
  proof (cases g)
    case (Point c)
    then show ?thesis using Some by (simp add: processFeature_def feature_positions_def)
  next
    case (Polygon rings)
    have "set (concat (map (sampleRing f []) rings)) \<subseteq> mkPoint f ` set (concat rings)"
      using sampleRing_set [of f] by fastforce
    then show ?thesis
      using Some Polygon processFeature_Polygon [of f rings points]
      by (auto simp: feature_positions_def)
  next
    case (MultiPolygon polygons)
    have "set (concat (map (sampleRing f []) (concat polygons))) \<subseteq> mkPoint f ` set (concat (concat polygons))"
      using sampleRing_set [of f] by fastforce
    then show ?thesis
      using Some MultiPolygon processFeature_MultiPolygon [of f polygons points]
      by (auto simp: feature_positions_def)
  qed (use Some in \<open>simp_all add: processFeature_def\<close>)
qed

lemma latlng_mkPoint: "latlng (mkPoint f c) = (coord_at c 1, coord_at c 0)"
  by (simp add: mkPoint_def)

lemma image_mkPoint_swapped:
  assumes "p \<in> mkPoint f ` set cs"
  shows "\<exists>c \<in> set cs. latlng p = (coord_at c 1, coord_at c 0)"
proof -
  from assms obtain c where "c \<in> set cs" and "p = mkPoint f c" by blast
  then show ?thesis using latlng_mkPoint [of f c] by blast
qed

lemma foldl_processFeature_swapped:
  assumes "\<forall>p \<in> set acc. \<exists>c \<in> set cs. latlng p = (coord_at c 1, coord_at c 0)"
  shows "\<forall>p \<in> set (foldl (\<lambda>pts f. processFeature f pts) acc features).
           \<exists>c \<in> set (cs @ concat (map feature_positions features)).
             latlng p = (coord_at c 1, coord_at c 0)"
  using assms
proof (induction features arbitrary: acc cs)
  case Nil
  then show ?case by simp
next
  case (Cons f features)
  have step: "\<forall>p \<in> set (processFeature f acc). \<exists>c \<in> set (cs @ feature_positions f).
      latlng p = (coord_at c 1, coord_at c 0)"
  proof
    fix p assume "p \<in> set (processFeature f acc)"
    then consider "p \<in> set acc" | "p \<in> mkPoint f ` set (feature_positions f)"
      using processFeature_set [of f acc] by blast
    then show "\<exists>c \<in> set (cs @ feature_positions f). latlng p = (coord_at c 1, coord_at c 0)"
    proof cases
      case 1
      then show ?thesis using Cons.prems by auto
    next
      case 2
      then have "\<exists>c \<in> set (feature_positions f). latlng p = (coord_at c 1, coord_at c 0)"
        by (rule image_mkPoint_swapped)
      then show ?thesis by auto
    qed
  qed
  show ?case using Cons.IH [OF step] by simp
qed

text \<open>
  Claim C2. Every point the reducer emits, for a Point, a Polygon or a MultiPolygon, is
  an input position with its axes swapped: the point's \<open>latlng\<close> is
  \<open>[coord[1], coord[0]]\<close> of some position \<open>coord\<close> of the input, so a position
  \<open>[longitude, latitude]\<close> becomes \<open>(latitude, longitude)\<close>; the input \<open>[10, 20]\<close>
  gives latitude 20 and longitude 10.
\<close>

theorem C2_axis_swap:
  "(\<forall>p \<in> set (extractPointsFromPolygons input).
      \<exists>c \<in> set (input_positions input). latlng p = (coord_at c 1, coord_at c 0))
   \<and> coord_at (lon # lat # rest) 1 = Some lat
   \<and> coord_at (lon # lat # rest) 0 = Some lon
   \<and> map latlng (extractPointsFromPolygons
        (Some (Feature \<lparr> geometry = Some (Point [lon, lat]), feature_properties = props \<rparr>)))
       = [(Some lat, Some lon)]
   \<and> map latlng (extractPointsFromPolygons
        (Some (Feature \<lparr> geometry = Some (Point [10, 20]), feature_properties = None \<rparr>)))
       = [(Some 20, Some 10)]"
proof -
  have all: "\<forall>p \<in> set (extractPointsFromPolygons input).
      \<exists>c \<in> set (input_positions input). latlng p = (coord_at c 1, coord_at c 0)"
  proof (cases input)
    case None
    then show ?thesis by (simp add: extractPointsFromPolygons_def)
  next
    case (Some g)
    show ?thesis
    proof (cases g)
      case (FeatureCollection features)
      have "\<forall>p \<in> set ([] :: burnSeverityPoint list). \<exists>c \<in> set ([] :: position list).
          latlng p = (coord_at c 1, coord_at c 0)" by simp
      from foldl_processFeature_swapped [OF this, of features]
      show ?thesis using Some FeatureCollection by (simp add: extractPointsFromPolygons_def)
    next
      case (Feature f)
      have "set (processFeature f []) \<subseteq> mkPoint f ` set (feature_positions f)"
        using processFeature_set [of f "[]"] by simp
      then have "\<forall>p \<in> set (processFeature f []).
          \<exists>c \<in> set (feature_positions f). latlng p = (coord_at c 1, coord_at c 0)"
        using image_mkPoint_swapped [of _ f "feature_positions f"] by blast
      then show ?thesis using Some Feature
        by (simp add: extractPointsFromPolygons_def)
    next
      case (Geometry x)
      then show ?thesis using Some by (simp add: extractPointsFromPolygons_def)
    qed
  qed
  have pt: "map latlng (extractPointsFromPolygons
        (Some (Feature \<lparr> geometry = Some (Point [a, b]), feature_properties = q \<rparr>)))
       = [(Some b, Some a)]" for a b q
    by (simp add: extractPointsFromPolygons_def processFeature_def mkPoint_def coord_at_def)
  show ?thesis using all pt by (simp add: coord_at_def)
qed

text \<open>C2 at a polygon feature with the ring \<open>[[10, 20], [30, 40]]\<close>.\<close>

theorem C2_axis_swap_witness:
  "mkPoint \<lparr> geometry = Some (Polygon [[[10, 20], [30, 40]]]), feature_properties = None \<rparr> [10, 20]
     \<in> set (extractPointsFromPolygons (Some (FeatureCollection
           [\<lparr> geometry = Some (Polygon [[[10, 20], [30, 40]]]), feature_properties = None \<rparr>])))
   \<and> (\<exists>c \<in> set (input_positions (Some (FeatureCollection
           [\<lparr> geometry = Some (Polygon [[[10, 20], [30, 40]]]), feature_properties = None \<rparr>]))).
        latlng (mkPoint \<lparr> geometry = Some (Polygon [[[10, 20], [30, 40]]]), feature_properties = None \<rparr>
                  [10, 20])
          = (coord_at c 1, coord_at c 0))
   \<and> latlng (mkPoint \<lparr> geometry = Some (Polygon [[[10, 20], [30, 40]]]), feature_properties = None \<rparr>
                [10, 20])
       = (Some 20, Some 10)"
proof -
  let ?f = "\<lparr> geometry = Some (Polygon [[[10, 20], [30, 40]]]), feature_properties = None \<rparr>"
  let ?input = "Some (FeatureCollection [?f])"
  have ring: "sampleRing ?f [] [[10, 20], [30, 40]] = map (mkPoint ?f) [[10, 20], [30, 40]]"
    using sampleRing_small [of "[[10, 20], [30, 40]]" ?f "[]"] by simp
  have "processFeature ?f [] = [] @ concat (map (sampleRing ?f []) [[[10, 20], [30, 40]]])"
    by (rule processFeature_Polygon) simp
  then have out: "extractPointsFromPolygons ?input = [mkPoint ?f [10, 20], mkPoint ?f [30, 40]]"
    by (simp add: extractPointsFromPolygons_def ring)
  have mem: "mkPoint ?f [10, 20] \<in> set (extractPointsFromPolygons ?input)"
    unfolding out by simp
  have ex: "\<exists>c \<in> set (input_positions ?input).
      latlng (mkPoint ?f [10, 20]) = (coord_at c 1, coord_at c 0)"
    using C2_axis_swap [where input = ?input, THEN conjunct1] mem by (rule bspec)
  have val: "latlng (mkPoint ?f [10, 20]) = (Some 20, Some 10)"
    by (simp add: mkPoint_def coord_at_def)
  show ?thesis using mem ex val by (simp only: simp_thms)
qed

subsection \<open>Degenerate input\<close>

lemma processFeature_skipped: "skipped f \<Longrightarrow> processFeature f points = points"
proof (cases "geometry f")
  case None
  then show ?thesis by (simp add: processFeature_def)
next
  case (Some g)
  assume "skipped f"
  then have "\<not> supported g" using Some by (simp add: skipped_def)
  then show ?thesis using Some by (cases g) (simp_all add: processFeature_def)
qed

lemma foldl_processFeature_skipped:
  "\<forall>f \<in> set features. skipped f \<Longrightarrow> foldl (\<lambda>pts f. processFeature f pts) points features = points"
  by (induction features arbitrary: points) (simp_all add: processFeature_skipped)

text \<open>
  Claim C7. The reducer returns the empty sequence for \<open>null\<close> and for an empty
  feature collection. A feature whose geometry is absent, or is neither a Point, a
  Polygon nor a MultiPolygon, leaves the points unchanged: alone it gives the empty
  sequence, and inside a collection the result is that of the collection without it.
  The reducer is a total function on the GeoJSON types (the loop terminates, no branch
  fails), so there is no input on which it raises.
\<close>

theorem C7_degenerate_input:
  "extractPointsFromPolygons None = []
   \<and> extractPointsFromPolygons (Some (FeatureCollection [])) = []
   \<and> (geometry f = None \<longrightarrow> processFeature f points = points)
   \<and> (geometry f = Some g \<and> \<not> supported g \<longrightarrow> processFeature f points = points)
   \<and> (skipped f \<longrightarrow>
        extractPointsFromPolygons (Some (Feature f)) = []
        \<and> extractPointsFromPolygons (Some (FeatureCollection (before @ f # after)))
          = extractPointsFromPolygons (Some (FeatureCollection (before @ after))))
   \<and> ((\<forall>x \<in> set features. skipped x) \<longrightarrow>
        extractPointsFromPolygons (Some (FeatureCollection features)) = [])"
proof -
  have a: "geometry f = None \<longrightarrow> processFeature f points = points"
    by (simp add: processFeature_skipped skipped_def)
  have b: "geometry f = Some g \<and> \<not> supported g \<longrightarrow> processFeature f points = points"
    by (simp add: processFeature_skipped skipped_def)
  have c: "skipped f \<longrightarrow>
        extractPointsFromPolygons (Some (Feature f)) = []
        \<and> extractPointsFromPolygons (Some (FeatureCollection (before @ f # after)))
          = extractPointsFromPolygons (Some (FeatureCollection (before @ after)))"
    by (simp add: extractPointsFromPolygons_def processFeature_skipped)
  have d: "(\<forall>x \<in> set features. skipped x) \<longrightarrow>
        extractPointsFromPolygons (Some (FeatureCollection features)) = []"
    by (simp add: extractPointsFromPolygons_def foldl_processFeature_skipped)
  have e: "extractPointsFromPolygons None = [] \<and> extractPointsFromPolygons (Some (FeatureCollection [])) = []"
    by (simp add: extractPointsFromPolygons_def)
  show ?thesis using a b c d e by blast
qed

text \<open>C7 at a feature without geometry, a LineString and an empty GeometryCollection.\<close>

theorem C7_degenerate_input_witness:
  "processFeature \<lparr> geometry = None, feature_properties = None \<rparr> [] = []
   \<and> processFeature \<lparr> geometry = Some (LineString [[1, 2], [3, 4]]), feature_properties = None \<rparr> [] = []
   \<and> extractPointsFromPolygons (Some (FeatureCollection
        [\<lparr> geometry = Some (Point [10, 20]), feature_properties = None \<rparr>,
         \<lparr> geometry = Some (LineString [[1, 2], [3, 4]]), feature_properties = None \<rparr>]))
     = extractPointsFromPolygons (Some (FeatureCollection
        [\<lparr> geometry = Some (Point [10, 20]), feature_properties = None \<rparr>]))
   \<and> extractPointsFromPolygons (Some (FeatureCollection
        [\<lparr> geometry = None, feature_properties = None \<rparr>,
         \<lparr> geometry = Some (GeometryCollection []), feature_properties = None \<rparr>])) = []"
proof -
  let ?n = "\<lparr> geometry = None, feature_properties = None \<rparr> :: feature"
  let ?l = "\<lparr> geometry = Some (LineString [[1, 2], [3, 4]]), feature_properties = None \<rparr>"
  let ?p = "\<lparr> geometry = Some (Point [10, 20]), feature_properties = None \<rparr>"
  let ?c = "\<lparr> geometry = Some (GeometryCollection []), feature_properties = None \<rparr>"
  have sl: "skipped ?l" and sn: "skipped ?n" and sc: "skipped ?c"
    by (simp_all add: skipped_def)
  have a: "processFeature ?n [] = []"
    using C7_degenerate_input [where f = ?n and points = "[]", THEN conjunct2, THEN conjunct2, THEN conjunct1]
    by simp
  have b: "processFeature ?l [] = []"
    using C7_degenerate_input [where f = ?l and points = "[]" and g = "LineString [[1, 2], [3, 4]]",
        THEN conjunct2, THEN conjunct2, THEN conjunct2, THEN conjunct1]
    by simp
  have c: "extractPointsFromPolygons (Some (FeatureCollection ([?p] @ ?l # [])))
      = extractPointsFromPolygons (Some (FeatureCollection ([?p] @ [])))"
    using C7_degenerate_input [where f = ?l and before = "[?p]" and after = "[]",
        THEN conjunct2, THEN conjunct2, THEN conjunct2, THEN conjunct2, THEN conjunct1] sl
    by blast
  have d: "extractPointsFromPolygons (Some (FeatureCollection [?n, ?c])) = []"
    using C7_degenerate_input [where features = "[?n, ?c]",
        THEN conjunct2, THEN conjunct2, THEN conjunct2, THEN conjunct2, THEN conjunct2] sn sc
    by simp
  show ?thesis using a b c d by simp
qed

section \<open>Properties of the severity classes\<close>

text \<open>
  Claim C6. The colour and the label of the severity codes 1 to 5 are the fixed ones, and
  every other integer (every other number, in fact) gets the colour \<open>#CCCCCC\<close> and the
  label \<open>Unknown\<close>. Both are functions of the number alone.
\<close>

theorem C6_severity_mapping:
  "getBurnSeverityColor 1 = ''#69B34C'' \<and> getSeverityLabel 1 = ''Low''
   \<and> getBurnSeverityColor 2 = ''#FAB733'' \<and> getSeverityLabel 2 = ''Moderate''
   \<and> getBurnSeverityColor 3 = ''#FF8E15'' \<and> getSeverityLabel 3 = ''High''
   \<and> getBurnSeverityColor 4 = ''#FF4E11'' \<and> getSeverityLabel 4 = ''Very High''
   \<and> getBurnSeverityColor 5 = ''#FF0D0D'' \<and> getSeverityLabel 5 = ''Extreme''
   \<and> ((i::int) \<notin> {1, 2, 3, 4, 5} \<longrightarrow>
        getBurnSeverityColor (of_int i) = ''#CCCCCC'' \<and> getSeverityLabel (of_int i) = ''Unknown'')
   \<and> ((x::real) \<notin> {1, 2, 3, 4, 5} \<longrightarrow>
        getBurnSeverityColor x = ''#CCCCCC'' \<and> getSeverityLabel x = ''Unknown'')"
  by (simp add: getBurnSeverityColor_def getSeverityLabel_def)

text \<open>C6 at the codes 0 and 99, and at 2.5.\<close>

theorem C6_severity_mapping_witness:
  "getBurnSeverityColor 0 = ''#CCCCCC'' \<and> getSeverityLabel 0 = ''Unknown''
   \<and> getBurnSeverityColor 99 = ''#CCCCCC'' \<and> getSeverityLabel 99 = ''Unknown''
   \<and> getBurnSeverityColor 2.5 = ''#CCCCCC''"
proof -
  have a: "getBurnSeverityColor (of_int 0) = ''#CCCCCC'' \<and> getSeverityLabel (of_int 0) = ''Unknown''"
    using C6_severity_mapping [where i = 0, THEN conjunct2, THEN conjunct2, THEN conjunct2, THEN conjunct2,
       THEN conjunct2, THEN conjunct2, THEN conjunct2, THEN conjunct2, THEN conjunct2, THEN conjunct2, THEN conjunct1]
    by simp
  have b: "getBurnSeverityColor (of_int 99) = ''#CCCCCC'' \<and> getSeverityLabel (of_int 99) = ''Unknown''"
    using C6_severity_mapping [where i = 99, THEN conjunct2, THEN conjunct2, THEN conjunct2, THEN conjunct2,
       THEN conjunct2, THEN conjunct2, THEN conjunct2, THEN conjunct2, THEN conjunct2, THEN conjunct2, THEN conjunct1]
    by simp
  have c: "getBurnSeverityColor 2.5 = ''#CCCCCC''"
    using C6_severity_mapping [where x = "2.5", THEN conjunct2, THEN conjunct2, THEN conjunct2, THEN conjunct2,
       THEN conjunct2, THEN conjunct2, THEN conjunct2, THEN conjunct2, THEN conjunct2, THEN conjunct2, THEN conjunct2]
    by simp
  show ?thesis using a b c by simp
qed

section \<open>Properties of the session store\<close>

text \<open>
  Claim C3. When the awaited analysis throws an \<open>Error\<close> with message \<open>msg\<close>, the
  session ends with status \<open>Failed\<close> and \<open>error = msg\<close>, and \<open>analysisResults\<close> is what it
  was before the call; a prior result \<open>R\<close> is still there. The same holds for the
  \<open>catch\<close> write alone, applied to whatever store it finds. A thrown value that is not an
  \<open>Error\<close> gives the fixed message instead.
\<close>

theorem C3_failed_analysis_keeps_result:
  "status_of (runAnalysis (\<lambda>p. Inl (Error msg)) params s) = Failed
   \<and> error (runAnalysis (\<lambda>p. Inl (Error msg)) params s) = Some msg
   \<and> analysisResults (runAnalysis (\<lambda>p. Inl (Error msg)) params s) = analysisResults s
   \<and> burnSeverityPolygons (runAnalysis (\<lambda>p. Inl (Error msg)) params s) = burnSeverityPolygons s
   \<and> selectedLocation (runAnalysis (\<lambda>p. Inl (Error msg)) params s) = selectedLocation s
   \<and> analysisResults (runAnalysis (\<lambda>p. Inl (Error msg)) params (s\<lparr> analysisResults := Some R \<rparr>))
       = Some R
   \<and> status_of (runAnalysis_rejected (Error msg) s) = Failed
   \<and> error (runAnalysis_rejected (Error msg) s) = Some msg
   \<and> analysisResults (runAnalysis_rejected (Error msg) s) = analysisResults s
   \<and> status_of (runAnalysis (\<lambda>p. Inl NonError) params s) = Failed
   \<and> error (runAnalysis (\<lambda>p. Inl NonError) params s) = Some ''An unknown error occurred''
   \<and> analysisResults (runAnalysis (\<lambda>p. Inl NonError) params s) = analysisResults s"
  by (simp add: runAnalysis_def runAnalysis_settle_def runAnalysis_rejected_def
      runAnalysis_start_def status_of_def message_of_def)

text \<open>
  Claim C4 as stated fails while an analysis is in flight: \<open>setSelectedLocation\<close> does not
  write \<open>isLoading\<close>, so the status stays \<open>Running\<close>.
\<close>

theorem C4_counterexample:
  "status_of (runAnalysis_start
       (setSelectedLocation \<lparr> latitude = 10, longitude = 20 \<rparr> initialStore)) = Running
   \<and> status_of (setSelectedLocation \<lparr> latitude = 30, longitude = 40 \<rparr>
       (runAnalysis_start (setSelectedLocation \<lparr> latitude = 10, longitude = 20 \<rparr> initialStore)))
     = Running
   \<and> status_of (setSelectedLocation \<lparr> latitude = 30, longitude = 40 \<rparr>
       (runAnalysis_start (setSelectedLocation \<lparr> latitude = 10, longitude = 20 \<rparr> initialStore)))
     \<noteq> Idle"
  by (simp add: setSelectedLocation_def runAnalysis_start_def initialStore_def status_of_def)

text \<open>
  Claim C4, amended. From every session state, \<open>setSelectedLocation loc\<close> sets the
  selected location to \<open>loc\<close> and clears the result, the polygons and the error message;
  it leaves \<open>isLoading\<close> and the layer visibility as they are. The status afterwards is
  \<open>Idle\<close> when no analysis is in flight and stays \<open>Running\<close> when one is.
\<close>

theorem C4_select_location:
  "selectedLocation (setSelectedLocation loc s) = Some loc
   \<and> analysisResults (setSelectedLocation loc s) = None
   \<and> burnSeverityPolygons (setSelectedLocation loc s) = None
   \<and> error (setSelectedLocation loc s) = None
   \<and> isLoading (setSelectedLocation loc s) = isLoading s
   \<and> visibleLayers (setSelectedLocation loc s) = visibleLayers s
   \<and> status_of (setSelectedLocation loc s) = (if isLoading s then Running else Idle)"
  by (simp add: setSelectedLocation_def status_of_def)

text \<open>
  Claim C8 as stated fails while an analysis is in flight: \<open>clearAnalysis\<close> does not write
  \<open>isLoading\<close> either.
\<close>

theorem C8_counterexample:
  "status_of (runAnalysis_start
       (setSelectedLocation \<lparr> latitude = 10, longitude = 20 \<rparr> initialStore)) = Running
   \<and> status_of (clearAnalysis
       (runAnalysis_start (setSelectedLocation \<lparr> latitude = 10, longitude = 20 \<rparr> initialStore)))
     = Running
   \<and> status_of (clearAnalysis
       (runAnalysis_start (setSelectedLocation \<lparr> latitude = 10, longitude = 20 \<rparr> initialStore)))
     \<noteq> Idle"
  by (simp add: clearAnalysis_def setSelectedLocation_def runAnalysis_start_def initialStore_def
      status_of_def)

text \<open>
  Claim C8, amended. From every session state, \<open>clearAnalysis\<close> resets the result, the
  polygons and the error message to none and leaves the selected location, \<open>isLoading\<close>
  and the layer visibility unchanged. The status afterwards is \<open>Idle\<close> when no analysis
  is in flight and stays \<open>Running\<close> when one is.
\<close>

theorem C8_clear:
  "analysisResults (clearAnalysis s) = None
   \<and> burnSeverityPolygons (clearAnalysis s) = None
   \<and> error (clearAnalysis s) = None
   \<and> selectedLocation (clearAnalysis s) = selectedLocation s
   \<and> isLoading (clearAnalysis s) = isLoading s
   \<and> visibleLayers (clearAnalysis s) = visibleLayers s
   \<and> status_of (clearAnalysis s) = (if isLoading s then Running else Idle)"
  by (simp add: clearAnalysis_def status_of_def)

text \<open>
  Claim C9 as stated fails when no location is selected: the handler returns at once and
  the store is unchanged.
\<close>

theorem C9_counterexample:
  "selectedLocation initialStore = None
   \<and> handleUseMockData (\<lambda>p. mockAnalysisResults) ''2023-06-01'' ''2023-08-01'' initialStore = initialStore
   \<and> status_of (handleUseMockData (\<lambda>p. mockAnalysisResults) ''2023-06-01'' ''2023-08-01'' initialStore)
       = Idle
   \<and> status_of (handleUseMockData (\<lambda>p. mockAnalysisResults) ''2023-06-01'' ''2023-08-01'' initialStore)
       \<noteq> Succeeded
   \<and> analysisResults (handleUseMockData (\<lambda>p. mockAnalysisResults) ''2023-06-01'' ''2023-08-01'' initialStore)
       \<noteq> Some mockAnalysisResults"
  by (simp add: handleUseMockData_def initialStore_def status_of_def)

text \<open>
  Claim C9, amended. From every session state with a selected location, the handler sets
  the status to \<open>Succeeded\<close> and the result to the mock result made for that location and
  the panel's two dates, clears the error, and leaves the selected location and the layer
  visibility unchanged; it takes no outcome of the API client. With no location selected
  it does nothing.
\<close>

theorem C9_use_mock_data:
  "(selectedLocation s = Some loc \<longrightarrow>
      (let fixedResult = getMock \<lparr> param_latitude = latitude loc, param_longitude = longitude loc,
                                  param_preFireDate = preDate, param_postFireDate = postDate \<rparr>;
           s' = handleUseMockData getMock preDate postDate s
       in status_of s' = Succeeded
          \<and> analysisResults s' = Some fixedResult
          \<and> burnSeverityPolygons s' = results_burnSeverityPolygons fixedResult
          \<and> error s' = None
          \<and> isLoading s' = False
          \<and> selectedLocation s' = selectedLocation s
          \<and> visibleLayers s' = visibleLayers s))
   \<and> (selectedLocation s = None \<longrightarrow> handleUseMockData getMock preDate postDate s = s)"
  by (simp add: handleUseMockData_def status_of_def Let_def)

text \<open>C9 after a location was selected and an analysis failed.\<close>

theorem C9_use_mock_data_witness:
  "status_of (handleUseMockData (\<lambda>p. mockAnalysisResults) ''2023-06-01'' ''2023-08-01''
       (runAnalysis_rejected (Error ''timeout'')
          (setSelectedLocation \<lparr> latitude = 37.7749, longitude = - 122.4194 \<rparr> initialStore)))
     = Succeeded
   \<and> analysisResults (handleUseMockData (\<lambda>p. mockAnalysisResults) ''2023-06-01'' ''2023-08-01''
       (runAnalysis_rejected (Error ''timeout'')
          (setSelectedLocation \<lparr> latitude = 37.7749, longitude = - 122.4194 \<rparr> initialStore)))
     = Some mockAnalysisResults
   \<and> selectedLocation (handleUseMockData (\<lambda>p. mockAnalysisResults) ''2023-06-01'' ''2023-08-01''
       (runAnalysis_rejected (Error ''timeout'')
          (setSelectedLocation \<lparr> latitude = 37.7749, longitude = - 122.4194 \<rparr> initialStore)))
     = Some \<lparr> latitude = 37.7749, longitude = - 122.4194 \<rparr>
   \<and> handleUseMockData (\<lambda>p. mockAnalysisResults) ''2023-06-01'' ''2023-08-01'' initialStore
     = initialStore"
proof -
  let ?loc = "\<lparr> latitude = 37.7749, longitude = - 122.4194 \<rparr>"
  let ?s = "runAnalysis_rejected (Error ''timeout'') (setSelectedLocation ?loc initialStore)"
  let ?m = "\<lambda>p :: analysisParams. mockAnalysisResults"
  have sel: "selectedLocation ?s = Some ?loc"
    by (simp add: runAnalysis_rejected_def setSelectedLocation_def)
  have none: "selectedLocation initialStore = None"
    by (simp add: initialStore_def)
  note t = C9_use_mock_data [where s = ?s and loc = ?loc and getMock = ?m
      and preDate = "''2023-06-01''" and postDate = "''2023-08-01''", unfolded Let_def, THEN conjunct1,
      THEN mp, OF sel]
  note u = C9_use_mock_data [where s = initialStore and getMock = ?m
      and preDate = "''2023-06-01''" and postDate = "''2023-08-01''", THEN conjunct2, THEN mp, OF none]
  have a: "status_of (handleUseMockData ?m ''2023-06-01'' ''2023-08-01'' ?s) = Succeeded"
    using t by (rule conjunct1)
  have b: "analysisResults (handleUseMockData ?m ''2023-06-01'' ''2023-08-01'' ?s) = Some mockAnalysisResults"
    using t [THEN conjunct2] by (rule conjunct1)
  have c: "selectedLocation (handleUseMockData ?m ''2023-06-01'' ''2023-08-01'' ?s) = Some ?loc"
    using t [THEN conjunct2, THEN conjunct2, THEN conjunct2, THEN conjunct2, THEN conjunct2, THEN conjunct1] sel
    by simp
  show ?thesis using a b c u by (simp only: simp_thms)
qed

section \<open>Properties of the API client\<close>


lemma string_of_nat_400: "string_of_nat 400 = ''400''"
  by (simp add: string_of_nat.simps digit_char_def)

text \<open>
  Once \<open>response.json()\<close> has read the stream, \<open>response.text()\<close> rejects: a body that
  arrives but is not JSON ends with the generic message.
\<close>

lemma text_after_json_rejects:
  "response_body r = Stream outcome \<Longrightarrow>
   fst (response_text eng r (snd (response_json eng r False))) = Inl (Error (bodyUsedErrorText eng))"
  by (simp add: response_json_def response_text_def split: sum.splits option.splits)

lemma errorMessage_unparsable:
  "response_body r = Stream (Inr raw) \<Longrightarrow> JSON_parse eng raw = None \<Longrightarrow>
   errorMessage eng r = ''Server error: '' @ string_of_nat (status r) @ '' '' @ statusText r"
  by (simp add: errorMessage_def Let_def response_json_def response_text_def)




section \<open>Properties of the API route\<close>

text \<open>
  Claim C10. For a request body that can be destructured, the route replies 400
  \<open>Missing required parameters\<close> whenever one of \<open>latitude\<close>, \<open>longitude\<close>,
  \<open>preFireDate\<close>, \<open>postFireDate\<close> is falsy. The number 0 is falsy, as an absent field
  is: a body with \<open>latitude = 0\<close> (or \<open>longitude = 0\<close>) gets the 400 reply, the same
  reply as the body without that field.
\<close>

theorem C10_missing_parameters:
  "(body \<noteq> JNull
      \<and> (falsy (get_property body ''latitude'') \<or> falsy (get_property body ''longitude'')
         \<or> falsy (get_property body ''preFireDate'') \<or> falsy (get_property body ''postFireDate''))
     \<longrightarrow> POST typeErrorText runScript (Inr body)
          = \<lparr> reply_status = 400,
              reply_body = JObj [(''error'', JStr ''Missing required parameters'')] \<rparr>)
   \<and> falsy None \<and> falsy (Some JNull) \<and> falsy (Some (JNum 0)) \<and> falsy (Some (JStr []))
   \<and> POST typeErrorText runScript
        (Inr (JObj ((''latitude'', JNum 0) # rest)))
     = \<lparr> reply_status = 400,
         reply_body = JObj [(''error'', JStr ''Missing required parameters'')] \<rparr>
   \<and> (map_of rest ''latitude'' = None \<longrightarrow>
        POST typeErrorText runScript (Inr (JObj ((''latitude'', JNum 0) # rest)))
          = POST typeErrorText runScript (Inr (JObj rest)))
   \<and> (map_of rest ''longitude'' = None \<longrightarrow>
        POST typeErrorText runScript (Inr (JObj ((''longitude'', JNum 0) # rest)))
          = POST typeErrorText runScript (Inr (JObj rest)))"
proof -
  have main: "POST typeErrorText runScript (Inr b)
      = \<lparr> reply_status = 400, reply_body = JObj [(''error'', JStr ''Missing required parameters'')] \<rparr>"
    if "b \<noteq> JNull"
      and "falsy (get_property b ''latitude'') \<or> falsy (get_property b ''longitude'')
         \<or> falsy (get_property b ''preFireDate'') \<or> falsy (get_property b ''postFireDate'')"
    for b
    using that by (cases b) (simp_all add: POST_def error_reply_def Let_def)
  have f: "falsy None \<and> falsy (Some JNull) \<and> falsy (Some (JNum 0)) \<and> falsy (Some (JStr []))"
    by (simp add: falsy_def)
  have lat0: "POST typeErrorText runScript (Inr (JObj ((''latitude'', JNum 0) # rest)))
     = \<lparr> reply_status = 400, reply_body = JObj [(''error'', JStr ''Missing required parameters'')] \<rparr>"
    by (rule main) (simp_all add: falsy_def)
  have lat_absent: "POST typeErrorText runScript (Inr (JObj rest))
     = \<lparr> reply_status = 400, reply_body = JObj [(''error'', JStr ''Missing required parameters'')] \<rparr>"
    if "map_of rest ''latitude'' = None"
    using that by (intro main) (simp_all add: falsy_def)
  have lon0: "POST typeErrorText runScript (Inr (JObj ((''longitude'', JNum 0) # rest)))
     = \<lparr> reply_status = 400, reply_body = JObj [(''error'', JStr ''Missing required parameters'')] \<rparr>"
    by (rule main) (simp_all add: falsy_def)
  have lon_absent: "POST typeErrorText runScript (Inr (JObj rest))
     = \<lparr> reply_status = 400, reply_body = JObj [(''error'', JStr ''Missing required parameters'')] \<rparr>"
    if "map_of rest ''longitude'' = None"
    using that by (intro main) (simp_all add: falsy_def)
  show ?thesis
    using main [of body] f lat0 lat_absent lon0 lon_absent by simp
qed

text \<open>C10 at a body with latitude 0 and at the same body without the latitude.\<close>

theorem C10_missing_parameters_witness:
  "POST ''null'' (\<lambda>a b c d e. Inr \<lparr> reply_status = 200, reply_body = JObj [] \<rparr>)
      (Inr (JObj [(''latitude'', JNum 0), (''longitude'', JNum 10),
                  (''preFireDate'', JStr ''2023-06-01''), (''postFireDate'', JStr ''2023-08-01'')]))
     = \<lparr> reply_status = 400, reply_body = JObj [(''error'', JStr ''Missing required parameters'')] \<rparr>
   \<and> POST ''null'' (\<lambda>a b c d e. Inr \<lparr> reply_status = 200, reply_body = JObj [] \<rparr>)
      (Inr (JObj [(''longitude'', JNum 10),
                  (''preFireDate'', JStr ''2023-06-01''), (''postFireDate'', JStr ''2023-08-01'')]))
     = \<lparr> reply_status = 400, reply_body = JObj [(''error'', JStr ''Missing required parameters'')] \<rparr>
   \<and> POST ''null'' (\<lambda>a b c d e. Inr \<lparr> reply_status = 200, reply_body = JObj [] \<rparr>)
      (Inr (JObj [(''latitude'', JNum 20), (''longitude'', JNum 10),
                  (''preFireDate'', JStr ''2023-06-01''), (''postFireDate'', JStr ''2023-08-01'')]))
     = \<lparr> reply_status = 200, reply_body = JObj [] \<rparr>"
proof -
  let ?run = "\<lambda>(a :: json option) (b :: json option) (c :: json option) (d :: json option) (e :: json).
      Inr \<lparr> reply_status = 200, reply_body = JObj [] \<rparr> :: thrown + reply"
  let ?rest = "[(''longitude'', JNum 10),
                  (''preFireDate'', JStr ''2023-06-01''), (''postFireDate'', JStr ''2023-08-01'')]"
  let ?zero = "JObj ((''latitude'', JNum 0) # ?rest)"
  have f: "falsy (get_property ?zero ''latitude'')" by (simp add: falsy_def)
  have g: "falsy (get_property (JObj ?rest) ''latitude'')" by (simp add: falsy_def)
  have a: "POST ''null'' ?run (Inr ?zero)
      = \<lparr> reply_status = 400, reply_body = JObj [(''error'', JStr ''Missing required parameters'')] \<rparr>"
    using C10_missing_parameters [where body = ?zero and typeErrorText = "''null''" and runScript = ?run,
        THEN conjunct1] f
    by blast
  have b: "POST ''null'' ?run (Inr (JObj ?rest))
      = \<lparr> reply_status = 400, reply_body = JObj [(''error'', JStr ''Missing required parameters'')] \<rparr>"
    using C10_missing_parameters [where body = "JObj ?rest" and typeErrorText = "''null''" and runScript = ?run,
        THEN conjunct1] g
    by blast
  have c: "POST ''null'' ?run (Inr (JObj ((''latitude'', JNum 20) # ?rest)))
      = \<lparr> reply_status = 200, reply_body = JObj [] \<rparr>"
    by (simp add: POST_def falsy_def)
  show ?thesis using a b c by (simp only: simp_thms)
qed

end
